theory Spec2Isabelle
  imports Complex_Main
begin

section \<open>Python values, exceptions and the observable state\<close>

text \<open>
  The development embeds \<^verbatim>\<open>src/ultralytics/utils/autobatch.py\<close>: the estimator
  \<^verbatim>\<open>autobatch\<close> and its subprocess wrapper \<^verbatim>\<open>check_train_batch_size\<close>.

  Python objects that cross the JSON boundary are values of \<open>pyval\<close>; a dict is an
  association list read with \<open>map_of\<close>. Python's unbounded integers are \<open>int\<close>.
  Floating-point numbers are idealised as \<open>real\<close>: rounding is not modelled.
\<close>

datatype pyval =
    PyNone
  | PyBool bool
  | PyInt int
  | PyFloat real
  | PyStr string
  | PyList "pyval list"
  | PyDict "(string \<times> pyval) list"

text \<open>
  The subclasses of Python's \<^verbatim>\<open>Exception\<close> that the two functions can meet.
  \<open>CalledProcessError\<close> carries the child's exit status; \<open>OtherException\<close> stands
  for any further subclass raised by a collaborator (a pickling error, say).
\<close>

datatype exn =
    StopIteration
  | OSError
  | CalledProcessError int
  | JSONDecodeError
  | RuntimeError
  | KeyError
  | TypeError
  | IndexError
  | ValueError
  | OverflowError
  | UnboundLocalError
  | OtherException string

datatype level = INFO | WARNING | ERROR

text \<open>
  A torch device (\<^verbatim>\<open>device.type\<close> and its index), and a model as far as the two
  functions look at it: the devices of its parameter tensors, in iteration order.
  \<^verbatim>\<open>next(model.parameters())\<close> raises \<^verbatim>\<open>StopIteration\<close> on a model without
  parameters.
\<close>

record device =
  device_type :: string
  device_index :: "nat option"

record model =
  parameters :: "device list"

text \<open>
  The effects on the world outside the function, in the order they happen:
  creating the temporary file, \<^verbatim>\<open>torch.save\<close>, \<^verbatim>\<open>subprocess.run\<close> (with the
  values interpolated into the child's program: path, device, \<^verbatim>\<open>imgsz\<close>,
  \<^verbatim>\<open>fraction\<close>, \<^verbatim>\<open>amp\<close>), \<^verbatim>\<open>Path.unlink\<close>, \<^verbatim>\<open>torch.cuda.empty_cache\<close>, and
  the profiling step of \<^verbatim>\<open>autobatch\<close> (lines 127-128).
\<close>

datatype call =
    Create_tmp string
  | Torch_save string
  | Subprocess_run string device int real bool
  | Unlink string
  | Empty_cache
  | Profile

text \<open>
  The state: the paths that exist in the file system, the trace of external calls, and
  the log. A log entry is the level of the \<^verbatim>\<open>LOGGER\<close> method and the fixed text of
  the message (the colour prefix, the emoji and the interpolated values are left out).
\<close>

record sys =
  files :: "string set"
  calls :: "call list"
  logs :: "(level \<times> string) list"

definition LOGGER :: "level \<Rightarrow> string \<Rightarrow> sys \<Rightarrow> sys" where
  "LOGGER lvl msg s = s\<lparr>logs := logs s @ [(lvl, msg)]\<rparr>"

definition called :: "call \<Rightarrow> sys \<Rightarrow> sys" where
  "called c s = s\<lparr>calls := calls s @ [c]\<rparr>"

section \<open>The estimator \<^verbatim>\<open>autobatch\<close>\<close>

text \<open>
  What the accelerator runtime and the profiler answer during one call.
  \<^verbatim>\<open>profile\<close> (\<^verbatim>\<open>ultralytics.utils.torch_utils\<close>) is not part of the sources at
  hand, so its outcome is an input: either an exception (also one raised while the
  input tensors of line 127 are built) or the list of results, one per candidate,
  where a result is \<^verbatim>\<open>None\<close> or a row of numbers whose entry 2 is the memory in GiB.
\<close>

type_synonym sample = "real list option"

record cuda =
  cudnn_benchmark :: bool
  get_device_properties :: "exn + nat"
  memory_reserved :: nat
  memory_allocated :: nat
  profile :: "exn + sample list"

definition gb :: real where
  "gb = 2 ^ 30"

definition batch_sizes :: "int list" where
  "batch_sizes = [1, 2, 4, 8, 16]"

text \<open>\<^verbatim>\<open>x[2]\<close> on a row: \<^verbatim>\<open>IndexError\<close> when the row has fewer than three entries.\<close>

fun index2 :: "real list \<Rightarrow> exn + real" where
  "index2 (a # b # c # rest) = Inr c"
| "index2 row = Inl IndexError"

text \<open>
  Line 131, \<^verbatim>\<open>y = [x[2] for x in results if x]\<close>: \<^verbatim>\<open>None\<close> and the empty row are
  falsy and skipped.
\<close>

fun memory_column :: "sample list \<Rightarrow> exn + real list" where
  "memory_column [] = Inr []"
| "memory_column (None # xs) = memory_column xs"
| "memory_column (Some [] # xs) = memory_column xs"
| "memory_column (Some row # xs) =
     (case index2 row of
        Inl e \<Rightarrow> Inl e
      | Inr m \<Rightarrow> (case memory_column xs of Inl e \<Rightarrow> Inl e | Inr ms \<Rightarrow> Inr (m # ms)))"

text \<open>
  \<^verbatim>\<open>numpy.polyfit(x, y, deg=1)\<close>, as the exact least-squares line over the reals,
  returned as (slope, intercept) for \<^verbatim>\<open>(p[0], p[1])\<close>. numpy raises \<^verbatim>\<open>TypeError\<close>
  on an empty \<open>x\<close> and on vectors of different lengths. When the points do not fix a
  line (here: a single point, since the candidates are distinct) numpy warns and answers
  with the minimum-norm solution of the column-scaled system, which for points that all
  have the abscissa \<open>x0\<close> and mean ordinate \<open>m\<close> is \<open>(m / (2 * x0), m / 2)\<close>.
  \<^verbatim>\<open>autobatch\<close> only passes prefixes of the candidate list, so \<open>x0 = 1\<close> there.
\<close>

definition polyfit :: "real list \<Rightarrow> real list \<Rightarrow> exn + real \<times> real" where
  "polyfit xs ys =
     (if xs = [] then Inl TypeError
      else if length xs \<noteq> length ys then Inl TypeError
      else
        let n = real (length xs);
            sx = sum_list xs;
            sy = sum_list ys;
            sxx = sum_list (map (\<lambda>x. x * x) xs);
            sxy = sum_list (map (\<lambda>(x, y). x * y) (zip xs ys));
            d = n * sxx - sx * sx
        in if d = 0 then Inr (sy / n / (2 * hd xs), sy / n / 2)
           else
             let slope = (n * sxy - sx * sy) / d
             in Inr (slope, (sy - slope * sx) / n))"

text \<open>\<^verbatim>\<open>int(x)\<close> on a finite float: truncation towards zero.\<close>

definition py_int :: "real \<Rightarrow> int" where
  "py_int x = (if 0 \<le> x then \<lfloor>x\<rfloor> else \<lceil>x\<rceil>)"

text \<open>
  Line 133, \<^verbatim>\<open>b = int((f * fraction - p[1]) / p[0])\<close>. The operands are numpy
  floats: a zero slope gives an infinity or a NaN, on which \<^verbatim>\<open>int\<close> raises
  \<^verbatim>\<open>OverflowError\<close> or \<^verbatim>\<open>ValueError\<close>.
\<close>

definition solve :: "real \<Rightarrow> real \<Rightarrow> real \<times> real \<Rightarrow> exn + int" where
  "solve f fraction p =
     (let num = f * fraction - snd p in
      if fst p = 0 then (if num = 0 then Inl ValueError else Inl OverflowError)
      else Inr (py_int (num / fst p)))"

text \<open>Lines 131-133 together: the solution of the fit before any clamping.\<close>

definition unclamped :: "real \<Rightarrow> real \<Rightarrow> sample list \<Rightarrow> exn + int" where
  "unclamped f fraction results =
     (case memory_column results of
        Inl e \<Rightarrow> Inl e
      | Inr y \<Rightarrow>
          (case polyfit (map real_of_int (take (length y) batch_sizes)) y of
             Inl e \<Rightarrow> Inl e
           | Inr p \<Rightarrow> solve f fraction p))"

text \<open>\<^verbatim>\<open>list.index(v)\<close>: the first position of \<open>v\<close>, \<^verbatim>\<open>ValueError\<close> when absent.\<close>

fun py_index :: "'a list \<Rightarrow> 'a \<Rightarrow> exn + nat" where
  "py_index [] v = Inl ValueError"
| "py_index (x # xs) v =
     (if x = v then Inr 0
      else (case py_index xs v of Inl e \<Rightarrow> Inl e | Inr i \<Rightarrow> Inr (Suc i)))"

text \<open>
  Lines 134-137: when some size failed and the solution reaches the first failed
  candidate, take the candidate before it, \<^verbatim>\<open>batch_sizes[max(i - 1, 0)]\<close>.
  \<^verbatim>\<open>batch_sizes[i]\<close> raises \<^verbatim>\<open>IndexError\<close> past the five candidates.
\<close>

definition select_prior :: "sample list \<Rightarrow> int \<Rightarrow> exn + int" where
  "select_prior results b =
     (if None \<in> set results then
        (case py_index results None of
           Inl e \<Rightarrow> Inl e
         | Inr i \<Rightarrow>
             if length batch_sizes \<le> i then Inl IndexError
             else if batch_sizes ! i \<le> b
               then Inr (batch_sizes ! nat (max (int i - 1) 0))
               else Inr b)
      else Inr b)"

text \<open>The test of line 138, \<^verbatim>\<open>b < 1 or b > 1024\<close>.\<close>

definition anomaly :: "int \<Rightarrow> bool" where
  "anomaly b = (b < 1 \<or> 1024 < b)"

text \<open>
  The body of the \<^verbatim>\<open>try\<close> (lines 127-144) from the profiler's outcome on: the value it
  returns and whether the anomaly message of line 140 was logged, or the exception that
  leaves it. Line 142 only prepares the last log message and raises nothing (the
  division is numpy's).
\<close>

definition try_fit :: "real \<Rightarrow> real \<Rightarrow> int \<Rightarrow> exn + sample list \<Rightarrow> exn + int \<times> bool" where
  "try_fit f fraction batch_size profiled =
     (case profiled of
        Inl e \<Rightarrow> Inl e
      | Inr results \<Rightarrow>
          (case unclamped f fraction results of
             Inl e \<Rightarrow> Inl e
           | Inr b0 \<Rightarrow>
               (case select_prior results b0 of
                  Inl e \<Rightarrow> Inl e
                | Inr b \<Rightarrow> if anomaly b then Inr (batch_size, True) else Inr (b, False))))"

text \<open>Free memory in GiB, lines 115-121.\<close>

definition free_memory :: "nat \<Rightarrow> cuda \<Rightarrow> real" where
  "free_memory total_memory env =
     (let t = real total_memory / gb;
          r = real (memory_reserved env) / gb;
          a = real (memory_allocated env) / gb
      in t - (r + a))"

definition autobatch :: "cuda \<Rightarrow> model \<Rightarrow> int \<Rightarrow> real \<Rightarrow> int \<Rightarrow> sys \<Rightarrow> (exn + int) \<times> sys" where
  "autobatch env m imgsz fraction batch_size s =
     (let s1 = LOGGER INFO ''Computing optimal batch size'' s in
      case parameters m of
        [] \<Rightarrow> (Inl StopIteration, s1)
      | dev # rest \<Rightarrow>
          if device_type dev \<in> {''cpu'', ''mps''} then
            (Inr batch_size,
             LOGGER INFO ''intended for CUDA devices, using default batch-size'' s1)
          else if cudnn_benchmark env then
            (Inr batch_size,
             LOGGER INFO
               ''Requires torch.backends.cudnn.benchmark=False, using default batch-size'' s1)
          else
            (case get_device_properties env of
               Inl e \<Rightarrow> (Inl e, s1)
             | Inr total_memory \<Rightarrow>
                 let f = free_memory total_memory env;
                     s2 = LOGGER INFO ''total, reserved, allocated, free'' s1;
                     s3 = called Profile s2
                 in (case try_fit f fraction batch_size (profile env) of
                       Inl e \<Rightarrow>
                         (Inr batch_size,
                          LOGGER WARNING ''WARNING error detected, using default batch-size'' s3)
                     | Inr (b, warned) \<Rightarrow>
                         let s4 = (if warned
                                   then LOGGER INFO
                                     ''WARNING CUDA anomaly detected, using default batch-size'' s3
                                   else s3)
                         in (Inr b, LOGGER INFO ''Using batch-size'' s4))))"

section \<open>The subprocess wrapper \<^verbatim>\<open>check_train_batch_size\<close>\<close>

text \<open>
  What the child process left behind when it ended, and what the collaborators of the
  wrapper answer during one call: the configured default \<^verbatim>\<open>DEFAULT_CFG.batch\<close>, the
  name of the temporary file (or the exception of \<^verbatim>\<open>NamedTemporaryFile\<close>), the
  exception of \<^verbatim>\<open>torch.save\<close> if it raises one, the child (or the exception that
  kept it from starting), and \<^verbatim>\<open>json.loads\<close>, which answers the parsed value or the
  exception it raises: \<^verbatim>\<open>JSONDecodeError\<close> on a malformed text, or another one (a
  \<^verbatim>\<open>RecursionError\<close> on a text nested too deeply).
\<close>

record child =
  returncode :: int
  stdout :: string
  stderr :: string

record host =
  DEFAULT_CFG_batch :: int
  NamedTemporaryFile :: "exn + string"
  torch_save :: "exn option"
  spawn :: "exn + child"
  json_loads :: "string \<Rightarrow> exn + pyval"

text \<open>
  \<^verbatim>\<open>subprocess.run(..., check=True)\<close>: a non-zero exit status is raised as
  \<^verbatim>\<open>CalledProcessError\<close>.
\<close>

definition subprocess_run :: "exn + child \<Rightarrow> exn + child" where
  "subprocess_run sp =
     (case sp of
        Inl e \<Rightarrow> Inl e
      | Inr c \<Rightarrow> if returncode c \<noteq> 0 then Inl (CalledProcessError (returncode c)) else Inr c)"

text \<open>
  Lines 64-73. Only \<^verbatim>\<open>JSONDecodeError\<close> is logged as a parse error before it is
  raised again. On a parsed value that is not a dict, \<^verbatim>\<open>"error" in output\<close> or the
  subscript that follows raises \<^verbatim>\<open>TypeError\<close> whatever the value is (a number has no
  \<^verbatim>\<open>in\<close>; a string and a list take no string subscript).
\<close>

definition parse_output :: "host \<Rightarrow> child \<Rightarrow> sys \<Rightarrow> (exn + pyval) \<times> sys" where
  "parse_output env result s =
     (case json_loads env (stdout result) of
        Inl e \<Rightarrow>
          if e = JSONDecodeError
          then (Inl e, LOGGER ERROR ''Failed to parse subprocess output'' s)
          else (Inl e, s)
      | Inr (PyDict output) \<Rightarrow>
          if ''error'' \<in> fst ` set output then (Inl RuntimeError, s)
          else
            (case map_of output ''batch_size'' of
               None \<Rightarrow> (Inl KeyError, s)
             | Some batch_size \<Rightarrow>
                 (Inr batch_size, LOGGER INFO ''Determined optimal batch size'' s))
      | Inr other \<Rightarrow> (Inl TypeError, s))"

text \<open>
  The body of the outer \<^verbatim>\<open>try\<close>, lines 41-73: how it ends, whether the local
  \<^verbatim>\<open>tmp_file_path\<close> was bound when it ended, and the state. The temporary file is
  created with \<^verbatim>\<open>delete=False\<close>, so it stays when \<^verbatim>\<open>torch.save\<close> raises, and the
  assignment of line 44 is not reached then.
\<close>

definition try_body ::
  "host \<Rightarrow> device \<Rightarrow> int \<Rightarrow> bool \<Rightarrow> real \<Rightarrow> sys \<Rightarrow> (exn + pyval) \<times> string option \<times> sys" where
  "try_body env dev imgsz amp fraction s =
     (case NamedTemporaryFile env of
        Inl e \<Rightarrow> (Inl e, None, s)
      | Inr name \<Rightarrow>
          let s1 = called (Create_tmp name) (s\<lparr>files := insert name (files s)\<rparr>);
              s2 = called (Torch_save name) s1
          in (case torch_save env of
                Some e \<Rightarrow> (Inl e, None, s2)
              | None \<Rightarrow>
                  let tmp_file_path = name;
                      s3 = called
                        (Subprocess_run tmp_file_path dev imgsz fraction amp) s2
                  in (case subprocess_run (spawn env) of
                        Inl e \<Rightarrow> (Inl e, Some tmp_file_path, s3)
                      | Inr result \<Rightarrow>
                          (case parse_output env result s3 of
                             (r, s4) \<Rightarrow> (r, Some tmp_file_path, s4)))))"

text \<open>
  The \<^verbatim>\<open>except\<close> clauses, lines 75-82: what the function is about to return. The
  handler of \<^verbatim>\<open>CalledProcessError\<close> has no \<^verbatim>\<open>return\<close>: control runs off the end of
  the function, which returns \<^verbatim>\<open>None\<close>.
\<close>

definition except_clauses :: "host \<Rightarrow> exn + pyval \<Rightarrow> sys \<Rightarrow> pyval \<times> sys" where
  "except_clauses env outcome s =
     (case outcome of
        Inr v \<Rightarrow> (v, s)
      | Inl (CalledProcessError rc) \<Rightarrow>
          (PyNone,
           LOGGER WARNING ''Subprocess stderr''
             (LOGGER WARNING ''Subprocess stdout''
               (LOGGER WARNING ''WARNING Subprocess error'' s)))
      | Inl e \<Rightarrow>
          (PyInt (DEFAULT_CFG_batch env),
           LOGGER WARNING ''Using default batch-size'' (LOGGER WARNING ''WARNING Error'' s)))"

text \<open>
  The \<^verbatim>\<open>finally\<close> clause, lines 84-87. Reading an unbound \<^verbatim>\<open>tmp_file_path\<close> raises
  \<^verbatim>\<open>UnboundLocalError\<close>, which replaces the pending return. The unlink of a file the
  process created itself is taken to succeed.
\<close>

definition finally_clause :: "string option \<Rightarrow> pyval \<Rightarrow> sys \<Rightarrow> (exn + pyval) \<times> sys" where
  "finally_clause tmp_file_path pending s =
     (case tmp_file_path of
        None \<Rightarrow> (Inl UnboundLocalError, s)
      | Some p \<Rightarrow>
          (Inr pending, called Empty_cache (called (Unlink p) (s\<lparr>files := files s - {p}\<rparr>))))"

definition check_train_batch_size ::
  "host \<Rightarrow> model \<Rightarrow> int \<Rightarrow> bool \<Rightarrow> real \<Rightarrow> sys \<Rightarrow> (exn + pyval) \<times> sys" where
  "check_train_batch_size env m imgsz amp batch s =
     (let s0 = LOGGER INFO ''Computing optimal batch size'' s in
      case parameters m of
        [] \<Rightarrow> (Inl StopIteration, s0)
      | dev # rest \<Rightarrow>
          if device_type dev \<in> {''cpu'', ''mps''} then
            (Inr (PyInt (DEFAULT_CFG_batch env)),
             LOGGER INFO ''CUDA not detected, using default CPU batch-size'' s0)
          else
            let fraction = (if 0 < batch \<and> batch < 1 then batch else 0.60) in
            (case try_body env dev imgsz amp fraction s0 of
               (outcome, tmp_file_path, s1) \<Rightarrow>
                 (case except_clauses env outcome s1 of
                    (pending, s2) \<Rightarrow> finally_clause tmp_file_path pending s2)))"

section \<open>Concrete inputs\<close>

definition s0 :: sys where
  "s0 = \<lparr>files = {}, calls = [], logs = []\<rparr>"

definition cuda0 :: device where
  "cuda0 = \<lparr>device_type = ''cuda'', device_index = Some 0\<rparr>"

definition cpu :: device where
  "cpu = \<lparr>device_type = ''cpu'', device_index = None\<rparr>"

definition gpu_model :: model where
  "gpu_model = \<lparr>parameters = [cuda0, cuda0]\<rparr>"

definition cpu_model :: model where
  "cpu_model = \<lparr>parameters = [cpu]\<rparr>"

text \<open>
  A 16 GiB device with 4 GiB reserved and 2 GiB allocated (10 GiB free), given the
  results of the profiler.
\<close>

definition gpu :: "sample list \<Rightarrow> cuda" where
  "gpu results =
     \<lparr>cudnn_benchmark = False,
      get_device_properties = Inr (16 * 2 ^ 30),
      memory_reserved = 4 * 2 ^ 30,
      memory_allocated = 2 * 2 ^ 30,
      profile = Inr results\<rparr>"

text \<open>A profiler row \<^verbatim>\<open>[p, flops, mem, ...]\<close> with the given memory.\<close>

definition row :: "real \<Rightarrow> sample" where
  "row mem = Some [0, 0, mem]"

definition all_succeed :: "sample list" where
  "all_succeed = [row (1/2), row (9/10), row (17/10), row (33/10), row (13/2)]"

definition fail_at_8 :: "sample list" where
  "fail_at_8 = [row (1/2), row (9/10), row (17/10), None, None]"

definition fail_at_1 :: "sample list" where
  "fail_at_1 = [None, row (1/2), row (9/10), row (17/10), None]"

text \<open>
  A host on which the temporary file is created and saved, given the child and the
  answer of \<^verbatim>\<open>json.loads\<close> on its standard output (\<open>None\<close> for
  \<^verbatim>\<open>JSONDecodeError\<close>).
\<close>

definition host_ok :: "child \<Rightarrow> pyval option \<Rightarrow> host" where
  "host_ok c parsed =
     \<lparr>DEFAULT_CFG_batch = 16,
      NamedTemporaryFile = Inr ''/tmp/tmpab12.pt'',
      torch_save = None,
      spawn = Inr c,
      json_loads =
        (\<lambda>text. if text = stdout c
                then (case parsed of None \<Rightarrow> Inl JSONDecodeError | Some v \<Rightarrow> Inr v)
                else Inl JSONDecodeError)\<rparr>"

definition host_save_fails :: host where
  "host_save_fails =
     \<lparr>DEFAULT_CFG_batch = 16,
      NamedTemporaryFile = Inr ''/tmp/tmpab12.pt'',
      torch_save = Some (OtherException ''PicklingError''),
      spawn = Inl OSError,
      json_loads = (\<lambda>text. Inl JSONDecodeError)\<rparr>"

definition fail_first_two :: "sample list" where
  "fail_first_two = [None, None, row (1/2), row (9/10), row (17/10)]"

text \<open>
  Rows on the line \<open>mem = b / 1000 + 1 / 2000\<close>: memory grows so slowly that the fit asks
  for 5999.5 images.
\<close>

definition tiny_rows :: "sample list" where
  "tiny_rows = [row (3/2000), row (5/2000), row (9/2000), row (17/2000), row (33/2000)]"

definition broken_rows :: "sample list" where
  "broken_rows = [None, None, None, None, None]"

text \<open>
  Children of the wrapper: one that ends with status 1 and an empty output, one that
  ends with status 0 and an output that is not JSON, and two that report a batch size.
  \<open>batch_size_object\<close> is the dict that \<^verbatim>\<open>json.loads\<close> makes of the object printed
  by line 55 of the child's program, \<^verbatim>\<open>{"batch_size": int(batch_size)}\<close>; the
  program prints one object with one key, this one or \<^verbatim>\<open>{"error": str(e)}\<close>.
\<close>

definition child_failed :: child where
  "child_failed = \<lparr>returncode = 1, stdout = '''', stderr = ''Traceback (most recent call last)''\<rparr>"

definition child_garbled :: child where
  "child_garbled = \<lparr>returncode = 0, stdout = ''Loading model...'', stderr = ''''\<rparr>"

definition child_negative :: child where
  \<open>child_negative = \<lparr>returncode = 0, stdout = ''{"batch_size": -3}'', stderr = ''''\<rparr>\<close>

definition child_reports_14 :: child where
  \<open>child_reports_14 = \<lparr>returncode = 0, stdout = ''{"batch_size": 14}'', stderr = ''''\<rparr>\<close>

definition batch_size_object :: "int \<Rightarrow> (string \<times> pyval) list" where
  "batch_size_object batch_size = [(''batch_size'', PyInt batch_size)]"

section \<open>Properties of \<^verbatim>\<open>autobatch\<close>\<close>

lemmas ev = autobatch_def gpu_def gpu_model_def cuda0_def all_succeed_def row_def try_fit_def
  unclamped_def polyfit_def batch_sizes_def solve_def py_int_def select_prior_def anomaly_def
  free_memory_def gb_def s0_def LOGGER_def called_def Let_def fail_at_8_def fail_at_1_def
  fail_first_two_def tiny_rows_def broken_rows_def

lemma py_index_mem: "py_index xs v = Inr i \<Longrightarrow> v \<in> set xs"
  by (induction xs arbitrary: i) (auto split: if_splits sum.splits)

lemma batch_sizes_prior:
  assumes "1 \<le> i" and "i < length batch_sizes"
  shows "batch_sizes ! nat (max (int i - 1) 0) = batch_sizes ! (i - 1)"
    and "batch_sizes ! (i - 1) < batch_sizes ! i"
proof -
  from assms have "i = 1 \<or> i = 2 \<or> i = 3 \<or> i = 4"
    by (auto simp: batch_sizes_def)
  then show "batch_sizes ! nat (max (int i - 1) 0) = batch_sizes ! (i - 1)"
    and "batch_sizes ! (i - 1) < batch_sizes ! i"
    by (auto simp: batch_sizes_def)
qed

lemma autobatch_fit_path:
  assumes "parameters m = dev # rest"
    and "device_type dev \<notin> {''cpu'', ''mps''}"
    and "\<not> cudnn_benchmark env"
    and "get_device_properties env = Inr tm"
  shows "fst (autobatch env m imgsz fraction d s) =
           (case try_fit (free_memory tm env) fraction d (profile env) of
              Inl e \<Rightarrow> Inr d
            | Inr (b, warned) \<Rightarrow> Inr b)"
  using assms by (simp add: autobatch_def Let_def split: sum.splits prod.splits)

lemma select_prior_reached:
  assumes "py_index results None = Inr i"
    and "i < length batch_sizes"
    and "batch_sizes ! i \<le> b"
  shows "select_prior results b = Inr (batch_sizes ! nat (max (int i - 1) 0))"
  using assms py_index_mem [OF assms(1)] by (simp add: select_prior_def)

lemma anomaly_batch_sizes: "j < length batch_sizes \<Longrightarrow> \<not> anomaly (batch_sizes ! j)"
proof -
  assume "j < length batch_sizes"
  then have "j = 0 \<or> j = 1 \<or> j = 2 \<or> j = 3 \<or> j = 4"
    by (auto simp: batch_sizes_def)
  then show ?thesis by (auto simp: batch_sizes_def anomaly_def)
qed

text \<open>
  Claim C2, as amended. When the first \<^verbatim>\<open>None\<close> of the results stands at an index
  \<open>i\<close> of at least 1 (and among the five candidates), and the solution of the fit
  before clamping reaches the candidate at \<open>i\<close>, \<^verbatim>\<open>autobatch\<close> returns the candidate
  at \<open>i - 1\<close>, which is strictly below the candidate at \<open>i\<close>.
\<close>

theorem autobatch_clamps_below_failure:
  assumes "parameters m = dev # rest"
    and "device_type dev \<notin> {''cpu'', ''mps''}"
    and "\<not> cudnn_benchmark env"
    and "get_device_properties env = Inr tm"
    and "profile env = Inr results"
    and "py_index results None = Inr i"
    and "1 \<le> i" and "i < length batch_sizes"
    and "unclamped (free_memory tm env) fraction results = Inr b"
    and "batch_sizes ! i \<le> b"
  shows "fst (autobatch env m imgsz fraction d s) = Inr (batch_sizes ! (i - 1))
         \<and> batch_sizes ! (i - 1) < batch_sizes ! i"
proof -
  have sel: "select_prior results b = Inr (batch_sizes ! (i - 1))"
    using select_prior_reached [OF assms(6) assms(8) assms(10)]
      batch_sizes_prior(1) [OF assms(7) assms(8)] by simp
  have "i - 1 < length batch_sizes" using assms(8) by simp
  then have ok: "\<not> anomaly (batch_sizes ! (i - 1))" by (rule anomaly_batch_sizes)
  have "try_fit (free_memory tm env) fraction d (profile env) = Inr (batch_sizes ! (i - 1), False)"
    using assms(5) assms(9) sel ok by (simp add: try_fit_def)
  then have "fst (autobatch env m imgsz fraction d s) = Inr (batch_sizes ! (i - 1))"
    using autobatch_fit_path [OF assms(1-4)] by simp
  then show ?thesis using batch_sizes_prior(2) [OF assms(7) assms(8)] by simp
qed

text \<open>
  The candidates 8 and 16 fail, the solution before clamping is 14, and 4, the
  candidate before 8, is returned.
\<close>

theorem autobatch_clamps_below_failure_witness:
  "py_index fail_at_8 None = Inr 3
   \<and> unclamped (free_memory (16 * 2 ^ 30) (gpu fail_at_8)) (3/5) fail_at_8 = Inr 14
   \<and> batch_sizes ! 3 \<le> 14
   \<and> fst (autobatch (gpu fail_at_8) gpu_model 640 (3/5) 16 s0) = Inr 4
   \<and> batch_sizes ! (3 - 1) < batch_sizes ! 3"
proof -
  have a: "parameters gpu_model = cuda0 # [cuda0]" by (simp add: gpu_model_def)
  have b: "device_type cuda0 \<notin> {''cpu'', ''mps''}" by (simp add: cuda0_def)
  have c: "\<not> cudnn_benchmark (gpu fail_at_8)" by (simp add: gpu_def)
  have d: "get_device_properties (gpu fail_at_8) = Inr (16 * 2 ^ 30)" by (simp add: gpu_def)
  have e: "profile (gpu fail_at_8) = Inr fail_at_8" by (simp add: gpu_def)
  have f: "py_index fail_at_8 None = Inr 3" by (simp add: fail_at_8_def row_def)
  have g: "(1::nat) \<le> 3" by simp
  have h: "3 < length batch_sizes" by (simp add: batch_sizes_def)
  have i: "unclamped (free_memory (16 * 2 ^ 30) (gpu fail_at_8)) (3/5) fail_at_8 = Inr 14"
    by (simp add: ev)
  have j: "batch_sizes ! 3 \<le> 14" by (simp add: batch_sizes_def)
  show ?thesis
    using autobatch_clamps_below_failure [OF a b c d e f g h i j, of 640 16 s0] f i j
    by (simp add: batch_sizes_def)
qed

text \<open>
  Claim C2 as stated fails when the first candidate is the one that failed: the clamp
  of line 137 takes index \<open>max (0 - 1) 0 = 0\<close>, and the result 1 is not below the failed
  candidate 1.
\<close>

theorem autobatch_fail_at_first_counterexample:
  "py_index fail_at_1 None = Inr 0
   \<and> unclamped (free_memory (16 * 2 ^ 30) (gpu fail_at_1)) (3/5) fail_at_1 = Inr 14
   \<and> batch_sizes ! 0 \<le> 14
   \<and> fst (autobatch (gpu fail_at_1) gpu_model 640 (3/5) 16 s0) = Inr 1
   \<and> \<not> (1 < batch_sizes ! 0)"
  by (simp add: ev)

text \<open>
  Claim C8. When profiling fails at the very first candidate (index 0, batch size 1)
  and the solution before clamping is at least 1, the clamp selects index
  \<open>max (0 - 1) 0 = 0\<close> and \<^verbatim>\<open>autobatch\<close> returns 1, the batch size of the failed
  candidate itself.
\<close>

theorem autobatch_first_candidate_fails:
  assumes "parameters m = dev # rest"
    and "device_type dev \<notin> {''cpu'', ''mps''}"
    and "\<not> cudnn_benchmark env"
    and "get_device_properties env = Inr tm"
    and "profile env = Inr results"
    and "py_index results None = Inr 0"
    and "unclamped (free_memory tm env) fraction results = Inr b"
    and "1 \<le> b"
  shows "nat (max (int 0 - 1) 0) = 0
         \<and> fst (autobatch env m imgsz fraction d s) = Inr 1
         \<and> batch_sizes ! 0 = 1"
proof -
  have first: "batch_sizes ! 0 = 1" by (simp add: batch_sizes_def)
  have "select_prior results b = Inr (batch_sizes ! nat (max (int 0 - 1) 0))"
    using assms(6) assms(8) first by (intro select_prior_reached) (simp_all add: batch_sizes_def)
  then have sel: "select_prior results b = Inr 1" using first by simp
  have "try_fit (free_memory tm env) fraction d (profile env) = Inr (1, False)"
    using assms(5) assms(7) sel by (simp add: try_fit_def anomaly_def)
  then have "fst (autobatch env m imgsz fraction d s) = Inr 1"
    using autobatch_fit_path [OF assms(1-4)] by simp
  then show ?thesis using first by simp
qed

theorem autobatch_first_candidate_fails_witness:
  "py_index fail_first_two None = Inr 0
   \<and> unclamped (free_memory (16 * 2 ^ 30) (gpu fail_first_two)) (3/5) fail_first_two = Inr 14
   \<and> fst (autobatch (gpu fail_first_two) gpu_model 640 (3/5) 16 s0) = Inr 1
   \<and> batch_sizes ! 0 = 1"
proof -
  have a: "parameters gpu_model = cuda0 # [cuda0]" by (simp add: gpu_model_def)
  have b: "device_type cuda0 \<notin> {''cpu'', ''mps''}" by (simp add: cuda0_def)
  have c: "\<not> cudnn_benchmark (gpu fail_first_two)" by (simp add: gpu_def)
  have d: "get_device_properties (gpu fail_first_two) = Inr (16 * 2 ^ 30)" by (simp add: gpu_def)
  have e: "profile (gpu fail_first_two) = Inr fail_first_two" by (simp add: gpu_def)
  have f: "py_index fail_first_two None = Inr 0" by (simp add: fail_first_two_def)
  have g: "unclamped (free_memory (16 * 2 ^ 30) (gpu fail_first_two)) (3/5) fail_first_two = Inr 14"
    by (simp add: ev)
  have h: "(1::int) \<le> 14" by simp
  show ?thesis
    using autobatch_first_candidate_fails [OF a b c d e f g h, of 640 16 s0] f g by simp
qed

lemma try_fit_range:
  "try_fit f fraction d profiled = Inr (b, warned) \<Longrightarrow> (1 \<le> b \<and> b \<le> 1024) \<or> b = d"
  by (auto simp: try_fit_def anomaly_def split: sum.splits if_splits)

text \<open>
  Claim C3, as amended. For a model with a parameter and a device whose properties can
  be read, \<^verbatim>\<open>autobatch\<close> returns an integer that lies in [1, 1024] or is the default
  \<^verbatim>\<open>batch_size\<close> handed in by the caller. When the computed (possibly clamped)
  solution falls outside [1, 1024], the default is returned and the message
  "WARNING ... CUDA anomaly detected" is logged (by \<^verbatim>\<open>LOGGER.info\<close>).
\<close>

theorem autobatch_range_or_default:
  assumes "parameters m = dev # rest"
    and "get_device_properties env = Inr tm"
  shows "(\<exists>v. fst (autobatch env m imgsz fraction d s) = Inr v \<and> ((1 \<le> v \<and> v \<le> 1024) \<or> v = d))
    \<and> (device_type dev \<notin> {''cpu'', ''mps''} \<and> \<not> cudnn_benchmark env
        \<and> profile env = Inr results
        \<and> unclamped (free_memory tm env) fraction results = Inr b0
        \<and> select_prior results b0 = Inr b \<and> anomaly b
       \<longrightarrow> fst (autobatch env m imgsz fraction d s) = Inr d
           \<and> (INFO, ''WARNING CUDA anomaly detected, using default batch-size'')
               \<in> set (logs (snd (autobatch env m imgsz fraction d s))))"
proof (intro conjI impI)
  show "\<exists>v. fst (autobatch env m imgsz fraction d s) = Inr v \<and> ((1 \<le> v \<and> v \<le> 1024) \<or> v = d)"
  proof (cases "device_type dev \<in> {''cpu'', ''mps''} \<or> cudnn_benchmark env")
    case True
    then show ?thesis using assms(1) by (auto simp: autobatch_def Let_def)
  next
    case False
    then have fit: "fst (autobatch env m imgsz fraction d s) =
           (case try_fit (free_memory tm env) fraction d (profile env) of
              Inl e \<Rightarrow> Inr d
            | Inr (b, warned) \<Rightarrow> Inr b)"
      using autobatch_fit_path [OF assms(1) _ _ assms(2)] by simp
    show ?thesis
    proof (cases "try_fit (free_memory tm env) fraction d (profile env)")
      case (Inl e)
      then show ?thesis using fit by simp
    next
      case (Inr r)
      obtain b warned where r: "r = (b, warned)" by (cases r)
      with Inr try_fit_range have "(1 \<le> b \<and> b \<le> 1024) \<or> b = d" by blast
      then show ?thesis using fit Inr r by simp
    qed
  qed
next
  assume h: "device_type dev \<notin> {''cpu'', ''mps''} \<and> \<not> cudnn_benchmark env
        \<and> profile env = Inr results
        \<and> unclamped (free_memory tm env) fraction results = Inr b0
        \<and> select_prior results b0 = Inr b \<and> anomaly b"
  then have t: "try_fit (free_memory tm env) fraction d (profile env) = Inr (d, True)"
    by (simp add: try_fit_def)
  from h have nc: "device_type dev \<noteq> ''cpu''" "device_type dev \<noteq> ''mps''" "\<not> cudnn_benchmark env"
    by auto
  show "fst (autobatch env m imgsz fraction d s) = Inr d"
    using assms nc t by (simp add: autobatch_def Let_def)
  show "(INFO, ''WARNING CUDA anomaly detected, using default batch-size'')
               \<in> set (logs (snd (autobatch env m imgsz fraction d s)))"
    using assms nc t by (simp add: autobatch_def Let_def LOGGER_def called_def)
qed

theorem autobatch_range_or_default_witness:
  "(\<exists>v. fst (autobatch (gpu tiny_rows) gpu_model 640 (3/5) 16 s0) = Inr v
        \<and> ((1 \<le> v \<and> v \<le> 1024) \<or> v = 16))
   \<and> unclamped (free_memory (16 * 2 ^ 30) (gpu tiny_rows)) (3/5) tiny_rows = Inr 5999
   \<and> select_prior tiny_rows 5999 = Inr 5999 \<and> anomaly 5999
   \<and> fst (autobatch (gpu tiny_rows) gpu_model 640 (3/5) 16 s0) = Inr 16
   \<and> (INFO, ''WARNING CUDA anomaly detected, using default batch-size'')
        \<in> set (logs (snd (autobatch (gpu tiny_rows) gpu_model 640 (3/5) 16 s0)))"
proof -
  have a: "parameters gpu_model = cuda0 # [cuda0]" by (simp add: gpu_model_def)
  have d: "get_device_properties (gpu tiny_rows) = Inr (16 * 2 ^ 30)" by (simp add: gpu_def)
  have b: "device_type cuda0 \<notin> {''cpu'', ''mps''}" by (simp add: cuda0_def)
  have c: "\<not> cudnn_benchmark (gpu tiny_rows)" by (simp add: gpu_def)
  have e: "profile (gpu tiny_rows) = Inr tiny_rows" by (simp add: gpu_def)
  have g: "unclamped (free_memory (16 * 2 ^ 30) (gpu tiny_rows)) (3/5) tiny_rows = Inr 5999"
    by (simp add: ev)
  have h: "select_prior tiny_rows 5999 = Inr 5999"
    by (simp add: select_prior_def tiny_rows_def row_def)
  have i: "anomaly 5999" by (simp add: anomaly_def)
  show ?thesis
    using autobatch_range_or_default [OF a d, of 640 "3/5" 16 s0 tiny_rows 5999 5999]
      b c e g h i by simp
qed

text \<open>
  Claim C3 as stated fails: the default is returned unchecked, here 2048 for a model on
  the CPU.
\<close>

theorem autobatch_range_counterexample:
  "fst (autobatch (gpu all_succeed) cpu_model 640 (3/5) 2048 s0) = Inr 2048
   \<and> \<not> (1 \<le> (2048::int) \<and> (2048::int) \<le> 1024)"
  by (simp add: autobatch_def cpu_model_def cpu_def Let_def)

text \<open>
  Claim C10. On the CPU/MPS branch, on the cudnn-benchmark branch and when the body of
  the \<^verbatim>\<open>try\<close> raises, \<^verbatim>\<open>autobatch\<close> returns the default \<open>d\<close> exactly, whatever
  \<open>d\<close> is; so the result lies in [1, 1024] exactly when \<open>d\<close> does.
\<close>

theorem autobatch_default_unchecked:
  assumes "parameters m = dev # rest"
    and "device_type dev \<in> {''cpu'', ''mps''}
         \<or> cudnn_benchmark env
         \<or> (\<exists>tm e. get_device_properties env = Inr tm
              \<and> try_fit (free_memory tm env) fraction d (profile env) = Inl e)"
  shows "fst (autobatch env m imgsz fraction d s) = Inr d
         \<and> ((\<exists>v. fst (autobatch env m imgsz fraction d s) = Inr v \<and> 1 \<le> v \<and> v \<le> 1024)
              = (1 \<le> d \<and> d \<le> 1024))"
proof -
  have "fst (autobatch env m imgsz fraction d s) = Inr d"
    using assms by (auto simp: autobatch_def Let_def)
  then show ?thesis by simp
qed

theorem autobatch_default_unchecked_witness:
  "fst (autobatch (gpu all_succeed) cpu_model 640 (3/5) 0 s0) = Inr 0
   \<and> fst (autobatch ((gpu all_succeed)\<lparr>cudnn_benchmark := True\<rparr>) gpu_model 640 (3/5) 4096 s0)
       = Inr 4096
   \<and> try_fit (free_memory (16 * 2 ^ 30) (gpu broken_rows)) (3/5) (-5) (profile (gpu broken_rows))
       = Inl TypeError
   \<and> fst (autobatch (gpu broken_rows) gpu_model 640 (3/5) (-5) s0) = Inr (-5)"
proof -
  have a: "parameters cpu_model = cpu # []" by (simp add: cpu_model_def)
  have b: "parameters gpu_model = cuda0 # [cuda0]" by (simp add: gpu_model_def)
  have c1: "device_type cpu \<in> {''cpu'', ''mps''}
      \<or> cudnn_benchmark (gpu all_succeed)
      \<or> (\<exists>tm e. get_device_properties (gpu all_succeed) = Inr tm
           \<and> try_fit (free_memory tm (gpu all_succeed)) (3/5) 0 (profile (gpu all_succeed)) = Inl e)"
    by (simp add: cpu_def)
  have c2: "device_type cuda0 \<in> {''cpu'', ''mps''}
      \<or> cudnn_benchmark ((gpu all_succeed)\<lparr>cudnn_benchmark := True\<rparr>)
      \<or> (\<exists>tm e. get_device_properties ((gpu all_succeed)\<lparr>cudnn_benchmark := True\<rparr>) = Inr tm
           \<and> try_fit (free_memory tm ((gpu all_succeed)\<lparr>cudnn_benchmark := True\<rparr>)) (3/5) 4096
                (profile ((gpu all_succeed)\<lparr>cudnn_benchmark := True\<rparr>)) = Inl e)"
    by simp
  have c3: "get_device_properties (gpu broken_rows) = Inr (16 * 2 ^ 30)" by (simp add: gpu_def)
  have c4: "try_fit (free_memory (16 * 2 ^ 30) (gpu broken_rows)) (3/5) (-5)
              (profile (gpu broken_rows)) = Inl TypeError"
    by (simp add: ev)
  from c3 c4 have c5: "device_type cuda0 \<in> {''cpu'', ''mps''}
      \<or> cudnn_benchmark (gpu broken_rows)
      \<or> (\<exists>tm e. get_device_properties (gpu broken_rows) = Inr tm
           \<and> try_fit (free_memory tm (gpu broken_rows)) (3/5) (-5) (profile (gpu broken_rows)) = Inl e)"
    by blast
  have r1: "fst (autobatch (gpu all_succeed) cpu_model 640 (3/5) 0 s0) = Inr 0"
    using autobatch_default_unchecked [OF a c1, of 640 s0] by blast
  have r2: "fst (autobatch ((gpu all_succeed)\<lparr>cudnn_benchmark := True\<rparr>) gpu_model 640 (3/5) 4096 s0)
       = Inr 4096"
    using autobatch_default_unchecked [OF b c2, of 640 s0] by blast
  have r3: "fst (autobatch (gpu broken_rows) gpu_model 640 (3/5) (-5) s0) = Inr (-5)"
    using autobatch_default_unchecked [OF b c5, of 640 s0] by blast
  show ?thesis using r1 r2 c4 r3 by blast
qed

section \<open>The CPU short circuit and the end-to-end scenario\<close>

text \<open>
  Claim C5. For a model whose first parameter lives on a device of type "cpu" or "mps",
  \<^verbatim>\<open>check_train_batch_size\<close> returns \<^verbatim>\<open>DEFAULT_CFG.batch\<close> and \<^verbatim>\<open>autobatch\<close>
  returns its default \<^verbatim>\<open>batch_size\<close>; both only log two messages, so no temporary
  file is written, no subprocess is started and the profiler is not invoked, whatever
  the host and the accelerator would have answered.
\<close>

theorem cpu_short_circuit:
  assumes "parameters m = dev # rest"
    and "device_type dev \<in> {''cpu'', ''mps''}"
  shows "check_train_batch_size henv m imgsz amp batch s =
           (Inr (PyInt (DEFAULT_CFG_batch henv)),
            s\<lparr>logs := logs s @ [(INFO, ''Computing optimal batch size''),
                                (INFO, ''CUDA not detected, using default CPU batch-size'')]\<rparr>)
         \<and> calls (snd (check_train_batch_size henv m imgsz amp batch s)) = calls s
         \<and> autobatch cenv m imgsz fraction d s =
           (Inr d,
            s\<lparr>logs := logs s @ [(INFO, ''Computing optimal batch size''),
                                (INFO, ''intended for CUDA devices, using default batch-size'')]\<rparr>)
         \<and> calls (snd (autobatch cenv m imgsz fraction d s)) = calls s"
  using assms by (auto simp: check_train_batch_size_def autobatch_def LOGGER_def Let_def)

theorem cpu_short_circuit_witness:
  "check_train_batch_size host_save_fails cpu_model 640 True (-1) s0 =
     (Inr (PyInt 16),
      \<lparr>files = {}, calls = [],
       logs = [(INFO, ''Computing optimal batch size''),
               (INFO, ''CUDA not detected, using default CPU batch-size'')]\<rparr>)
   \<and> autobatch (gpu all_succeed) cpu_model 640 (3/5) 16 s0 =
     (Inr 16,
      \<lparr>files = {}, calls = [],
       logs = [(INFO, ''Computing optimal batch size''),
               (INFO, ''intended for CUDA devices, using default batch-size'')]\<rparr>)"
proof -
  have a: "parameters cpu_model = cpu # []" by (simp add: cpu_model_def)
  have b: "device_type cpu \<in> {''cpu'', ''mps''}" by (simp add: cpu_def)
  show ?thesis
    using cpu_short_circuit [OF a b, of host_save_fails 640 True "-1" s0 "gpu all_succeed" "3/5" 16]
    by (simp add: s0_def host_save_fails_def)
qed

text \<open>
  Any slope within 1/1000 of 0.4 and intercept within 1/1000 of 0.1 give the batch
  size 14 at 10 GiB free and fraction 0.6: the quotient stays between 14 and 15.
\<close>

lemma solve_near:
  assumes "\<bar>p0 - 2/5\<bar> \<le> 1/1000" and "\<bar>p1 - 1/10\<bar> \<le> 1/1000"
  shows "solve 10 (3/5) (p0, p1) = Inr 14"
proof -
  from assms have p0: "399/1000 \<le> p0" "p0 \<le> 401/1000" and p1: "99/1000 \<le> p1" "p1 \<le> 101/1000"
    by linarith+
  then have pos: "0 < p0" by linarith
  let ?x = "(10 * (3/5) - p1) / p0"
  have lo: "14 \<le> ?x" using p0 p1 pos by (simp add: le_divide_eq)
  have hi: "?x < 15" using p0 p1 pos by (simp add: divide_less_eq)
  have "\<lfloor>?x\<rfloor> = 14" using lo hi by (simp add: floor_eq_iff)
  moreover have "0 \<le> ?x" using lo by linarith
  ultimately have "py_int ?x = 14" by (simp add: py_int_def)
  then show ?thesis using pos by (simp add: solve_def Let_def)
qed

text \<open>
  Claim C6. For the samples (1, 0.5), (2, 0.9), (4, 1.7), (8, 3.3), (16, 6.5), all
  candidates succeeding, 10 GiB free and fraction 0.6: the first-degree fit has slope
  0.4 and intercept 0.1, \<open>int ((10 * 0.6 - 0.1) / 0.4) = 14\<close>, and \<^verbatim>\<open>autobatch\<close>
  returns 14. The result is the same for every slope and intercept within 1/1000 of
  these values.
\<close>

theorem end_to_end_fit:
  assumes "parameters m = dev # rest"
    and "device_type dev \<notin> {''cpu'', ''mps''}"
    and "\<not> cudnn_benchmark env"
    and "get_device_properties env = Inr tm"
    and "free_memory tm env = 10"
    and "profile env = Inr all_succeed"
  shows "polyfit (map real_of_int batch_sizes) [1/2, 9/10, 17/10, 33/10, 13/2] = Inr (2/5, 1/10)
         \<and> py_int ((10 * (3/5) - 1/10) / (2/5)) = 14
         \<and> fst (autobatch env m imgsz (3/5) d s) = Inr 14
         \<and> (\<forall>p0 p1. \<bar>p0 - 2/5\<bar> \<le> 1/1000 \<and> \<bar>p1 - 1/10\<bar> \<le> 1/1000
               \<longrightarrow> solve 10 (3/5) (p0, p1) = Inr 14)"
proof -
  have fit: "polyfit (map real_of_int batch_sizes) [1/2, 9/10, 17/10, 33/10, 13/2] = Inr (2/5, 1/10)"
    by (simp add: polyfit_def batch_sizes_def Let_def)
  have tr: "py_int ((10 * (3/5) - 1/10) / (2/5)) = 14" by (simp add: py_int_def)
  have col: "memory_column all_succeed = Inr [1/2, 9/10, 17/10, 33/10, 13/2]"
    by (simp add: all_succeed_def row_def)
  have un: "unclamped 10 (3/5) all_succeed = Inr 14"
    using fit col tr by (simp add: unclamped_def solve_def batch_sizes_def Let_def)
  have sel: "select_prior all_succeed 14 = Inr 14"
    by (simp add: select_prior_def all_succeed_def row_def)
  have "try_fit (free_memory tm env) (3/5) d (profile env) = Inr (14, False)"
    using assms(5) assms(6) un sel by (simp add: try_fit_def anomaly_def)
  then have "fst (autobatch env m imgsz (3/5) d s) = Inr 14"
    using autobatch_fit_path [OF assms(1-4)] by simp
  then show ?thesis using fit tr solve_near by blast
qed

theorem end_to_end_fit_witness:
  "free_memory (16 * 2 ^ 30) (gpu all_succeed) = 10
   \<and> fst (autobatch (gpu all_succeed) gpu_model 640 (3/5) 16 s0) = Inr 14
   \<and> solve 10 (3/5) (401/1000, 99/1000) = Inr 14"
proof -
  have a: "parameters gpu_model = cuda0 # [cuda0]" by (simp add: gpu_model_def)
  have b: "device_type cuda0 \<notin> {''cpu'', ''mps''}" by (simp add: cuda0_def)
  have c: "\<not> cudnn_benchmark (gpu all_succeed)" by (simp add: gpu_def)
  have d: "get_device_properties (gpu all_succeed) = Inr (16 * 2 ^ 30)" by (simp add: gpu_def)
  have e: "free_memory (16 * 2 ^ 30) (gpu all_succeed) = 10"
    by (simp add: free_memory_def gpu_def gb_def Let_def)
  have f: "profile (gpu all_succeed) = Inr all_succeed" by (simp add: gpu_def)
  have g: "\<bar>401/1000 - 2/5\<bar> \<le> (1/1000 :: real) \<and> \<bar>99/1000 - 1/10\<bar> \<le> (1/1000 :: real)"
    by simp
  show ?thesis
    using end_to_end_fit [OF a b c d e f, of 640 16 s0] e g by blast
qed

section \<open>Properties of \<^verbatim>\<open>check_train_batch_size\<close>\<close>

lemmas wev = check_train_batch_size_def try_body_def except_clauses_def finally_clause_def
  parse_output_def subprocess_run_def host_ok_def host_save_fails_def gpu_model_def cuda0_def
  s0_def LOGGER_def called_def Let_def child_failed_def child_garbled_def child_negative_def
  child_reports_14_def batch_size_object_def

text \<open>
  Claim C1 against the code. The claim says that the wrapper never raises and always
  returns a positive integer, falling back to \<^verbatim>\<open>DEFAULT_CFG.batch\<close> when the child
  ends with a non-zero status. On a CUDA model whose child ends with status 1, the
  handler of lines 75-78 logs and does not return, and the call returns \<^verbatim>\<open>None\<close>.
\<close>

theorem nonzero_exit_returns_None:
  "fst (check_train_batch_size (host_ok child_failed None) gpu_model 640 True (-1) s0) = Inr PyNone"
  by (simp add: wev)

text \<open>
  Claim C7 against the code. The claim says that the temporary file is gone after every
  call that created it. When \<^verbatim>\<open>torch.save\<close> raises, \<^verbatim>\<open>tmp_file_path\<close> is unbound
  in the \<^verbatim>\<open>finally\<close> clause: the call ends with \<^verbatim>\<open>UnboundLocalError\<close>, the file is
  still there and the cache was not released.
\<close>

theorem save_failure_leaves_file:
  "fst (check_train_batch_size host_save_fails gpu_model 640 True (-1) s0) = Inl UnboundLocalError
   \<and> ''/tmp/tmpab12.pt'' \<in> files (snd (check_train_batch_size host_save_fails gpu_model 640 True (-1) s0))
   \<and> Empty_cache \<notin> set (calls (snd (check_train_batch_size host_save_fails gpu_model 640 True (-1) s0)))"
  by (simp add: wev)


lemma try_body_parsed:
  assumes "NamedTemporaryFile env = Inr name"
    and "torch_save env = None"
    and "spawn env = Inr c"
    and "returncode c = 0"
  shows "try_body env dev imgsz amp fraction s =
           (fst (parse_output env c
                   (called (Subprocess_run name dev imgsz fraction amp)
                      (called (Torch_save name)
                         (called (Create_tmp name) (s\<lparr>files := insert name (files s)\<rparr>))))),
            Some name,
            snd (parse_output env c
                   (called (Subprocess_run name dev imgsz fraction amp)
                      (called (Torch_save name)
                         (called (Create_tmp name) (s\<lparr>files := insert name (files s)\<rparr>))))))"
  using assms by (simp add: try_body_def subprocess_run_def Let_def split: prod.splits)

lemma logs_called: "logs (called c s) = logs s"
  by (simp add: called_def)

lemma logs_LOGGER: "logs (LOGGER lvl msg s) = logs s @ [(lvl, msg)]"
  by (simp add: LOGGER_def)

text \<open>
  Claim C4, as amended. When the child ends with status 0 and \<^verbatim>\<open>json.loads\<close> raises
  \<^verbatim>\<open>JSONDecodeError\<close> on its standard output, \<^verbatim>\<open>check_train_batch_size\<close>
  returns \<^verbatim>\<open>DEFAULT_CFG.batch\<close>, so it does not raise, and the log holds the parse
  error of line 72.
\<close>

theorem malformed_stdout_gives_default:
  assumes "parameters m = dev # rest"
    and "device_type dev \<notin> {''cpu'', ''mps''}"
    and "NamedTemporaryFile env = Inr name"
    and "torch_save env = None"
    and "spawn env = Inr c"
    and "returncode c = 0"
    and "json_loads env (stdout c) = Inl JSONDecodeError"
  shows "fst (check_train_batch_size env m imgsz amp batch s) = Inr (PyInt (DEFAULT_CFG_batch env))
         \<and> (ERROR, ''Failed to parse subprocess output'')
              \<in> set (logs (snd (check_train_batch_size env m imgsz amp batch s)))"
proof -
  have p: "\<And>t. parse_output env c t =
             (Inl JSONDecodeError, LOGGER ERROR ''Failed to parse subprocess output'' t)"
    using assms(7) by (simp add: parse_output_def)
  have e: "\<And>t. except_clauses env (Inl JSONDecodeError) t =
             (PyInt (DEFAULT_CFG_batch env),
              LOGGER WARNING ''Using default batch-size'' (LOGGER WARNING ''WARNING Error'' t))"
    by (simp add: except_clauses_def)
  have f: "\<And>v t. finally_clause (Some name) v t =
             (Inr v, called Empty_cache (called (Unlink name) (t\<lparr>files := files t - {name}\<rparr>)))"
    by (simp add: finally_clause_def)
  have nc: "device_type dev \<noteq> ''cpu''" "device_type dev \<noteq> ''mps''" using assms(2) by auto
  show ?thesis
    using assms(1) nc
    by (simp add: check_train_batch_size_def Let_def try_body_parsed [OF assms(3-6)] p e f
        logs_called logs_LOGGER)
qed

theorem malformed_stdout_gives_default_witness:
  "returncode child_garbled = 0
   \<and> json_loads (host_ok child_garbled None) (stdout child_garbled) = Inl JSONDecodeError
   \<and> fst (check_train_batch_size (host_ok child_garbled None) gpu_model 640 True (-1) s0)
       = Inr (PyInt 16)
   \<and> (ERROR, ''Failed to parse subprocess output'')
        \<in> set (logs (snd (check_train_batch_size (host_ok child_garbled None) gpu_model 640 True (-1) s0)))"
proof -
  have a: "parameters gpu_model = cuda0 # [cuda0]" by (simp add: gpu_model_def)
  have b: "device_type cuda0 \<notin> {''cpu'', ''mps''}" by (simp add: cuda0_def)
  have c: "NamedTemporaryFile (host_ok child_garbled None) = Inr ''/tmp/tmpab12.pt''"
    by (simp add: host_ok_def)
  have d: "torch_save (host_ok child_garbled None) = None" by (simp add: host_ok_def)
  have e: "spawn (host_ok child_garbled None) = Inr child_garbled" by (simp add: host_ok_def)
  have f: "returncode child_garbled = 0" by (simp add: child_garbled_def)
  have g: "json_loads (host_ok child_garbled None) (stdout child_garbled) = Inl JSONDecodeError"
    by (simp add: host_ok_def)
  have h: "DEFAULT_CFG_batch (host_ok child_garbled None) = 16" by (simp add: host_ok_def)
  show ?thesis
    using malformed_stdout_gives_default [OF a b c d e f g, of 640 True "-1" s0] f g h by simp
qed

text \<open>
  Claim C4 as stated fails when the child ends with a non-zero status: its output, here
  the empty string, is not valid JSON, but \<^verbatim>\<open>subprocess.run\<close> raises before line 65
  and the output is never parsed. No parse error is logged, and the value returned is
  \<^verbatim>\<open>None\<close>, not the default 16.
\<close>

theorem crashed_child_not_parsed_counterexample:
  "stdout child_failed = []
   \<and> json_loads (host_ok child_failed None) (stdout child_failed) = Inl JSONDecodeError
   \<and> returncode child_failed = 1
   \<and> DEFAULT_CFG_batch (host_ok child_failed None) = 16
   \<and> fst (check_train_batch_size (host_ok child_failed None) gpu_model 640 True (-1) s0)
       = Inr PyNone
   \<and> PyNone \<noteq> PyInt 16
   \<and> (ERROR, ''Failed to parse subprocess output'')
        \<notin> set (logs (snd (check_train_batch_size (host_ok child_failed None)
                              gpu_model 640 True (-1) s0)))"
  by (simp add: wev)

text \<open>
  Claim C9. When the child ends with status 0 and its output parses as a JSON object
  with a "batch_size" field, the wrapper returns the value of that field as it is,
  whatever it is: no positivity or range check. The child's program prints an object
  with a single key, so an object with a "batch_size" field has no "error" field, the
  field that line 66 looks for first.
\<close>

theorem reported_batch_size_returned:
  assumes "parameters m = dev # rest"
    and "device_type dev \<notin> {''cpu'', ''mps''}"
    and "NamedTemporaryFile env = Inr name"
    and "torch_save env = None"
    and "spawn env = Inr c"
    and "returncode c = 0"
    and "json_loads env (stdout c) = Inr (PyDict output)"
    and "''error'' \<notin> fst ` set output"
    and "map_of output ''batch_size'' = Some v"
  shows "fst (check_train_batch_size env m imgsz amp batch s) = Inr v"
proof -
  have p: "\<And>t. parse_output env c t = (Inr v, LOGGER INFO ''Determined optimal batch size'' t)"
    using assms(7-9) by (simp add: parse_output_def)
  have e: "\<And>t. except_clauses env (Inr v) t = (v, t)"
    by (simp add: except_clauses_def)
  have f: "\<And>w t. finally_clause (Some name) w t =
             (Inr w, called Empty_cache (called (Unlink name) (t\<lparr>files := files t - {name}\<rparr>)))"
    by (simp add: finally_clause_def)
  have nc: "device_type dev \<noteq> ''cpu''" "device_type dev \<noteq> ''mps''" using assms(2) by auto
  show ?thesis
    using assms(1) nc
    by (simp add: check_train_batch_size_def Let_def try_body_parsed [OF assms(3-6)] p e f)
qed

text \<open>
  The objects printed by line 55 for the batch sizes 14 and -3: each is returned as
  reported.
\<close>

theorem reported_batch_size_returned_witness:
  "returncode child_reports_14 = 0
   \<and> json_loads (host_ok child_reports_14 (Some (PyDict (batch_size_object 14))))
        (stdout child_reports_14) = Inr (PyDict (batch_size_object 14))
   \<and> ''error'' \<notin> fst ` set (batch_size_object 14)
   \<and> map_of (batch_size_object 14) ''batch_size'' = Some (PyInt 14)
   \<and> fst (check_train_batch_size (host_ok child_reports_14 (Some (PyDict (batch_size_object 14))))
             gpu_model 640 True (-1) s0) = Inr (PyInt 14)
   \<and> fst (check_train_batch_size (host_ok child_negative (Some (PyDict (batch_size_object (-3)))))
             gpu_model 640 True (-1) s0) = Inr (PyInt (-3))"
proof -
  let ?h = "host_ok child_reports_14 (Some (PyDict (batch_size_object 14)))"
  let ?n = "host_ok child_negative (Some (PyDict (batch_size_object (-3))))"
  have a: "parameters gpu_model = cuda0 # [cuda0]" by (simp add: gpu_model_def)
  have b: "device_type cuda0 \<notin> {''cpu'', ''mps''}" by (simp add: cuda0_def)
  have c: "NamedTemporaryFile ?h = Inr ''/tmp/tmpab12.pt''" by (simp add: host_ok_def)
  have d: "torch_save ?h = None" by (simp add: host_ok_def)
  have e: "spawn ?h = Inr child_reports_14" by (simp add: host_ok_def)
  have f: "returncode child_reports_14 = 0" by (simp add: child_reports_14_def)
  have g: "json_loads ?h (stdout child_reports_14) = Inr (PyDict (batch_size_object 14))"
    by (simp add: host_ok_def)
  have h: "''error'' \<notin> fst ` set (batch_size_object 14)" by (simp add: batch_size_object_def)
  have i: "map_of (batch_size_object 14) ''batch_size'' = Some (PyInt 14)"
    by (simp add: batch_size_object_def)
  have c': "NamedTemporaryFile ?n = Inr ''/tmp/tmpab12.pt''" by (simp add: host_ok_def)
  have d': "torch_save ?n = None" by (simp add: host_ok_def)
  have e': "spawn ?n = Inr child_negative" by (simp add: host_ok_def)
  have f': "returncode child_negative = 0" by (simp add: child_negative_def)
  have g': "json_loads ?n (stdout child_negative) = Inr (PyDict (batch_size_object (-3)))"
    by (simp add: host_ok_def)
  have h': "''error'' \<notin> fst ` set (batch_size_object (-3))" by (simp add: batch_size_object_def)
  have i': "map_of (batch_size_object (-3)) ''batch_size'' = Some (PyInt (-3))"
    by (simp add: batch_size_object_def)
  show ?thesis
    using reported_batch_size_returned [OF a b c d e f g h i, of 640 True "-1" s0]
      reported_batch_size_returned [OF a b c' d' e' f' g' h' i', of 640 True "-1" s0]
      f g h i by simp
qed

lemma try_body_bound:
  assumes "NamedTemporaryFile env = Inr name"
    and "torch_save env = None"
  shows "fst (snd (try_body env dev imgsz amp fraction s)) = Some name"
  using assms by (simp add: try_body_def Let_def split: sum.splits prod.splits)

text \<open>
  The case in which the clean-up works: once the temporary file is created and
  \<^verbatim>\<open>torch.save\<close> has returned, every path through the wrapper returns a value and
  ends by unlinking the file and releasing the cache, so the file is gone.
\<close>

theorem cleanup_when_saved:
  assumes "parameters m = dev # rest"
    and "device_type dev \<notin> {''cpu'', ''mps''}"
    and "NamedTemporaryFile env = Inr name"
    and "torch_save env = None"
  shows "name \<notin> files (snd (check_train_batch_size env m imgsz amp batch s))
         \<and> (\<exists>v. fst (check_train_batch_size env m imgsz amp batch s) = Inr v)
         \<and> (\<exists>cs. calls (snd (check_train_batch_size env m imgsz amp batch s))
                   = cs @ [Unlink name, Empty_cache])"
proof -
  have nc: "device_type dev \<noteq> ''cpu''" "device_type dev \<noteq> ''mps''" using assms(2) by auto
  define fraction :: real where "fraction = (if 0 < batch \<and> batch < 1 then batch else 0.60)"
  define t0 where "t0 = LOGGER INFO ''Computing optimal batch size'' s"
  obtain r p t where tb: "try_body env dev imgsz amp fraction t0 = (r, p, t)"
    by (cases "try_body env dev imgsz amp fraction t0") auto
  have p: "p = Some name"
    using try_body_bound [OF assms(3,4), of dev imgsz amp fraction t0] tb by simp
  obtain v u where ex: "except_clauses env r t = (v, u)" by (cases "except_clauses env r t")
  have "check_train_batch_size env m imgsz amp batch s = finally_clause (Some name) v u"
    using assms(1) nc tb p ex
    by (simp add: check_train_batch_size_def Let_def fraction_def t0_def)
  then show ?thesis
    by (simp add: finally_clause_def called_def)
qed

theorem cleanup_when_saved_witness:
  "''/tmp/tmpab12.pt'' \<notin> files (snd (check_train_batch_size (host_ok child_failed None)
                                       gpu_model 640 True (-1) s0))
   \<and> (\<exists>v. fst (check_train_batch_size (host_ok child_failed None) gpu_model 640 True (-1) s0)
            = Inr v)
   \<and> (\<exists>cs. calls (snd (check_train_batch_size (host_ok child_failed None)
                          gpu_model 640 True (-1) s0))
            = cs @ [Unlink ''/tmp/tmpab12.pt'', Empty_cache])"
proof -
  have a: "parameters gpu_model = cuda0 # [cuda0]" by (simp add: gpu_model_def)
  have b: "device_type cuda0 \<notin> {''cpu'', ''mps''}" by (simp add: cuda0_def)
  have c: "NamedTemporaryFile (host_ok child_failed None) = Inr ''/tmp/tmpab12.pt''"
    by (simp add: host_ok_def)
  have d: "torch_save (host_ok child_failed None) = None" by (simp add: host_ok_def)
  show ?thesis
    using cleanup_when_saved [OF a b c d, of 640 True "-1" s0] by blast
qed

end
